theory Spec2Isabelle
  imports Complex_Main
begin

section \<open>Values received from the live feed\<close>

text \<open>
  \<^verbatim>\<open>ws.onmessage\<close> of \<^verbatim>\<open>Simulation3D\<close> (3DSimulation.tsx, lines 355-364) hands
  \<^verbatim>\<open>evt.data\<close> to \<^verbatim>\<open>JSON.parse\<close> and stores what it finds without any
  validation, so the stored fields hold arbitrary parsed JSON. Numbers are idealised as
  reals. An object is the list of its own properties; \<^verbatim>\<open>JSON.parse\<close> returns objects
  whose keys are pairwise different.
\<close>

datatype json =
    JNull
  | JBool bool
  | JNum real
  | JStr string
  | JArr "json list"
  | JObj "(string \<times> json) list"

datatype js_exn = SyntaxError | TypeError

text \<open>
  \<^verbatim>\<open>JSON.parse\<close> is a built-in of the host, so it is a parameter of the model:
  \<open>None\<close> stands for the thrown \<^verbatim>\<open>SyntaxError\<close>.
\<close>

type_synonym parser = "string \<Rightarrow> json option"

text \<open>
  \<^verbatim>\<open>if (v)\<close>: JavaScript's truthiness of a parsed value. \<open>None\<close> is
  \<^verbatim>\<open>undefined\<close>.
\<close>

fun truthy :: "json \<Rightarrow> bool" where
  "truthy JNull = False"
| "truthy (JBool b) = b"
| "truthy (JNum r) = (r \<noteq> 0)"
| "truthy (JStr s) = (s \<noteq> [])"
| "truthy (JArr xs) = True"
| "truthy (JObj kvs) = True"

fun truthy_prop :: "json option \<Rightarrow> bool" where
  "truthy_prop None = False"
| "truthy_prop (Some v) = truthy v"

text \<open>
  \<^verbatim>\<open>data.k\<close> for the three keys the handler reads (\<^verbatim>\<open>locations\<close>,
  \<^verbatim>\<open>heatZones\<close>, \<^verbatim>\<open>crowdParticles\<close>), none of which is a property of a built-in
  prototype: reading a property of \<^verbatim>\<open>null\<close> throws a \<^verbatim>\<open>TypeError\<close>, an
  object yields its own property or \<^verbatim>\<open>undefined\<close>, every other value yields
  \<^verbatim>\<open>undefined\<close>.
\<close>

fun get_prop :: "json \<Rightarrow> string \<Rightarrow> js_exn + json option" where
  "get_prop JNull k = Inl TypeError"
| "get_prop (JObj kvs) k = Inr (map_of kvs k)"
| "get_prop (JBool b) k = Inr None"
| "get_prop (JNum r) k = Inr None"
| "get_prop (JStr s) k = Inr None"
| "get_prop (JArr xs) k = Inr None"

section \<open>The component state\<close>

text \<open>
  The three \<^verbatim>\<open>useState\<close> cells of the real-time state and \<^verbatim>\<open>isLive\<close>
  (lines 309-312). \<open>None\<close> is \<^verbatim>\<open>undefined\<close>. The type parameters are the run-time
  types of the stored values: the declared element lists while only the component itself
  writes them, parsed JSON once the feed writes them.
\<close>

record ('l, 'h, 'p) store =
  locations :: "'l option"
  heatZones :: "'h option"
  crowdParticles :: "'p option"
  isLive :: bool

datatype readyState = CONNECTING | OPEN | CLOSED

text \<open>
  A component mounted with a feed URL: the store, the socket \<^verbatim>\<open>ws\<close> (\<open>None\<close> is
  \<^verbatim>\<open>null\<close>) and what has been written to the console.
\<close>

record feed = "(json, json, json) store" +
  ws :: "readyState option"
  console :: "string list"

section \<open>The message handler\<close>

text \<open>
  One guarded statement of the handler, \<^verbatim>\<open>if (data.k) setK(data.k)\<close>: the state
  after it and the exception it threw, if any.
\<close>

definition guarded_set ::
  "json \<Rightarrow> string \<Rightarrow> (json option \<Rightarrow> feed \<Rightarrow> feed) \<Rightarrow> feed \<Rightarrow> feed \<times> js_exn option" where
  "guarded_set data k setter c =
     (case get_prop data k of
        Inl e \<Rightarrow> (c, Some e)
      | Inr v \<Rightarrow> (if truthy_prop v then setter v c else c, None))"

definition setLocations :: "json option \<Rightarrow> feed \<Rightarrow> feed" where
  "setLocations v c = c\<lparr>locations := v\<rparr>"

definition setHeatZones :: "json option \<Rightarrow> feed \<Rightarrow> feed" where
  "setHeatZones v c = c\<lparr>heatZones := v\<rparr>"

definition setCrowdParticles :: "json option \<Rightarrow> feed \<Rightarrow> feed" where
  "setCrowdParticles v c = c\<lparr>crowdParticles := v\<rparr>"

text \<open>The body of the \<^verbatim>\<open>try\<close> block: it stops at the first exception.\<close>

definition onmessage_try :: "parser \<Rightarrow> feed \<Rightarrow> string \<Rightarrow> feed \<times> js_exn option" where
  "onmessage_try JSON_parse c evt_data =
     (case JSON_parse evt_data of
        None \<Rightarrow> (c, Some SyntaxError)
      | Some data \<Rightarrow>
          (case guarded_set data ''locations'' setLocations c of
             (c1, Some e) \<Rightarrow> (c1, Some e)
           | (c1, None) \<Rightarrow>
               (case guarded_set data ''heatZones'' setHeatZones c1 of
                  (c2, Some e) \<Rightarrow> (c2, Some e)
                | (c2, None) \<Rightarrow> guarded_set data ''crowdParticles'' setCrowdParticles c2)))"

text \<open>
  The handler: the empty \<^verbatim>\<open>catch\<close> block swallows whatever the body threw. The
  second component is the exception that leaves the handler.
\<close>

definition ws_onmessage :: "parser \<Rightarrow> feed \<Rightarrow> string \<Rightarrow> feed \<times> js_exn option" where
  "ws_onmessage JSON_parse c evt_data =
     (case onmessage_try JSON_parse c evt_data of (c', thrown) \<Rightarrow> (c', None))"

text \<open>
  The value a parsed message carries for a key: \<open>None\<close> when the key is omitted (or the
  message is not an object at all).
\<close>

definition field_of :: "json \<Rightarrow> string \<Rightarrow> json option" where
  "field_of data k = (case get_prop data k of Inl e \<Rightarrow> None | Inr v \<Rightarrow> v)"

text \<open>The intensities of the zones of a stored heat-zone value.\<close>

fun stored_intensities :: "json option \<Rightarrow> json option list" where
  "stored_intensities (Some (JArr zs)) = map (\<lambda>z. field_of z ''intensity'') zs"
| "stored_intensities v = []"

section \<open>The data the component itself produces\<close>

text \<open>
  \<^verbatim>\<open>LocationData\<close>, \<^verbatim>\<open>HeatZoneData\<close> and \<^verbatim>\<open>ParticleData\<close> (lines 207-209).
  JavaScript numbers are idealised as reals.
\<close>

type_synonym vec3 = "real \<times> real \<times> real"

datatype riskLevel = low | medium | high | critical

record LocationData =
  position :: vec3
  label :: string
  riskLevel :: riskLevel

record HeatZoneData =
  center :: vec3
  radius :: real
  intensity :: real

record ParticleData =
  position :: vec3
  color :: string
  speed :: real

text \<open>
  \<^verbatim>\<open>Math.random()\<close>: the value of the \<open>i\<close>-th call. The host promises
  \<open>0 \<le> rnd i < 1\<close>; theorems that need the promise assume it.
\<close>

type_synonym rng = "nat \<Rightarrow> real"

text \<open>
  A component mounted without a feed URL: the store and the number of
  \<^verbatim>\<open>Math.random()\<close> calls made so far.
\<close>

record fallback = "(LocationData list, HeatZoneData list, ParticleData list) store" +
  draws :: nat

section \<open>Seeding: \<^verbatim>\<open>bootstrapDefaults\<close>\<close>

definition seedLocations :: "LocationData list" where
  "seedLocations =
     [\<lparr>LocationData.position = (-1, 0, -1), label = ''Ramkund'', riskLevel = high\<rparr>,
      \<lparr>LocationData.position = (1, 0, -1), label = ''Triveni'', riskLevel = critical\<rparr>,
      \<lparr>LocationData.position = (0, 0, 1), label = ''Kalaram'', riskLevel = medium\<rparr>,
      \<lparr>LocationData.position = (-1.5, 0, 0.5), label = ''Sita Gufha'', riskLevel = low\<rparr>]"

definition seedHeat :: "HeatZoneData list" where
  "seedHeat =
     [\<lparr>center = (-1, 0, -1), radius = 0.3, intensity = 0.8\<rparr>,
      \<lparr>center = (1, 0, -1), radius = 0.4, intensity = 0.95\<rparr>,
      \<lparr>center = (0, 0, 1), radius = 0.25, intensity = 0.6\<rparr>,
      \<lparr>center = (-1.5, 0, 0.5), radius = 0.2, intensity = 0.3\<rparr>]"

text \<open>
  The callback of \<^verbatim>\<open>Array.from({ length: 200 }).map\<close> (lines 334-341), drawing the
  random numbers \<open>k\<close>, \<open>k + 1\<close> and \<open>k + 2\<close> for \<open>x\<close>, \<open>z\<close> and the speed.
\<close>

definition seedParticle :: "rng \<Rightarrow> nat \<Rightarrow> ParticleData" where
  "seedParticle rnd k =
     (let x = (rnd k - 0.5) * 4;
          z = (rnd (k + 1) - 0.5) * 4;
          y = 0.02;
          intensity = (if \<bar>x\<bar> + \<bar>z\<bar> < 1.5 then 0.8 else 0.3 :: real);
          color = (if intensity > 0.6 then ''#ef4444'' else ''#10b981'')
      in \<lparr>position = (x, y, z), color = color, speed = rnd (k + 2) * 2 + 1\<rparr>)"

definition seedParticles :: "rng \<Rightarrow> nat \<Rightarrow> ParticleData list" where
  "seedParticles rnd k = map (\<lambda>i. seedParticle rnd (k + 3 * i)) [0..<200]"

definition bootstrapDefaults :: "rng \<Rightarrow> fallback \<Rightarrow> fallback" where
  "bootstrapDefaults rnd c =
     c\<lparr>locations := Some seedLocations,
       heatZones := Some seedHeat,
       crowdParticles := Some (seedParticles rnd (draws c)),
       draws := draws c + 600\<rparr>"

text \<open>The state cells as \<^verbatim>\<open>useState\<close> initialises them (lines 309-312).\<close>

definition initial :: fallback where
  "initial = \<lparr>locations = None, heatZones = None, crowdParticles = None,
     isLive = False, draws = 0\<rparr>"

section \<open>The fallback tick\<close>

text \<open>The two perturbations, \<^verbatim>\<open>(Math.random() - 0.5) * 0.1\<close> and \<^verbatim>\<open>* 0.02\<close>.\<close>

definition intensity_delta :: "real \<Rightarrow> real" where
  "intensity_delta r = (r - 0.5) * 0.1"

definition coord_delta :: "real \<Rightarrow> real" where
  "coord_delta r = (r - 0.5) * 0.02"

definition tick_zone :: "real \<Rightarrow> HeatZoneData \<Rightarrow> HeatZoneData" where
  "tick_zone r z = z\<lparr>intensity := max 0.05 (min 1 (intensity z + intensity_delta r))\<rparr>"

definition tick_particle :: "real \<Rightarrow> real \<Rightarrow> ParticleData \<Rightarrow> ParticleData" where
  "tick_particle r1 r2 p =
     (case ParticleData.position p of (x, y, z) \<Rightarrow>
        let nx = max (-2) (min 2 (x + coord_delta r1));
            nz = max (-2) (min 2 (z + coord_delta r2))
        in p\<lparr>ParticleData.position := (nx, y, nz)\<rparr>)"

text \<open>\<^verbatim>\<open>.map\<close> over the zones and over the particles, drawing random numbers from \<open>k\<close> on.\<close>

fun map_zones :: "rng \<Rightarrow> nat \<Rightarrow> HeatZoneData list \<Rightarrow> HeatZoneData list" where
  "map_zones rnd k [] = []"
| "map_zones rnd k (z # zs) = tick_zone (rnd k) z # map_zones rnd (Suc k) zs"

fun map_particles :: "rng \<Rightarrow> nat \<Rightarrow> ParticleData list \<Rightarrow> ParticleData list" where
  "map_particles rnd k [] = []"
| "map_particles rnd k (p # ps) =
     tick_particle (rnd k) (rnd (Suc k)) p # map_particles rnd (k + 2) ps"

text \<open>\<^verbatim>\<open>prev ?? []\<close>\<close>

definition or_empty :: "'a list option \<Rightarrow> 'a list" where
  "or_empty prev = (case prev of None \<Rightarrow> [] | Some xs \<Rightarrow> xs)"

text \<open>The two state updaters of the interval callback (lines 373-388).\<close>

definition heatZones_updater :: "rng \<Rightarrow> nat \<Rightarrow> HeatZoneData list option \<Rightarrow> HeatZoneData list option" where
  "heatZones_updater rnd k prev =
     (let arr = map_zones rnd k (or_empty prev) in if arr \<noteq> [] then Some arr else prev)"

definition crowdParticles_updater :: "rng \<Rightarrow> nat \<Rightarrow> ParticleData list option \<Rightarrow> ParticleData list option" where
  "crowdParticles_updater rnd k prev =
     (let arr = map_particles rnd k (or_empty prev) in if arr \<noteq> [] then Some arr else prev)"

definition tick :: "rng \<Rightarrow> fallback \<Rightarrow> fallback" where
  "tick rnd c =
     (let k = draws c;
          k' = k + length (or_empty (heatZones c))
      in c\<lparr>heatZones := heatZones_updater rnd k (heatZones c),
           crowdParticles := crowdParticles_updater rnd k' (crowdParticles c),
           draws := k' + 2 * length (or_empty (crowdParticles c))\<rparr>)"

text \<open>The interval firing \<open>n\<close> times in a row.\<close>

fun ticks :: "nat \<Rightarrow> rng \<Rightarrow> fallback \<Rightarrow> fallback" where
  "ticks 0 rnd c = c"
| "ticks (Suc n) rnd c = ticks n rnd (tick rnd c)"

section \<open>Mounting the component and its event handlers\<close>

text \<open>
  The effect of \<^verbatim>\<open>Simulation3D\<close> (lines 314-396) seeds the store and then takes
  exactly one of two branches: \<^verbatim>\<open>if (url)\<close> creates the socket and registers its
  four handlers, \<^verbatim>\<open>if (!url)\<close> registers the interval. A mounted component is
  therefore one of two kinds: \<open>Fallback\<close>, where \<^verbatim>\<open>ws\<close> is \<^verbatim>\<open>null\<close> and the
  interval is registered, and \<open>Feed\<close>, where \<^verbatim>\<open>timer\<close> is \<^verbatim>\<open>null\<close>.
\<close>

datatype component = Fallback fallback | Feed feed

text \<open>\<^verbatim>\<open>if (url)\<close>: an unset variable and the empty string are both falsy.\<close>

definition url_given :: "string option \<Rightarrow> bool" where
  "url_given url = (case url of None \<Rightarrow> False | Some u \<Rightarrow> u \<noteq> [])"

text \<open>The seeded values as the run-time objects they are, for the store the feed writes.\<close>

definition json_of_vec3 :: "vec3 \<Rightarrow> json" where
  "json_of_vec3 v = (case v of (x, y, z) \<Rightarrow> JArr [JNum x, JNum y, JNum z])"

fun json_of_riskLevel :: "riskLevel \<Rightarrow> json" where
  "json_of_riskLevel low = JStr ''low''"
| "json_of_riskLevel medium = JStr ''medium''"
| "json_of_riskLevel high = JStr ''high''"
| "json_of_riskLevel critical = JStr ''critical''"

definition json_of_location :: "LocationData \<Rightarrow> json" where
  "json_of_location l =
     JObj [(''position'', json_of_vec3 (LocationData.position l)),
           (''label'', JStr (label l)),
           (''riskLevel'', json_of_riskLevel (riskLevel l))]"

definition json_of_zone :: "HeatZoneData \<Rightarrow> json" where
  "json_of_zone z =
     JObj [(''center'', json_of_vec3 (center z)),
           (''radius'', JNum (radius z)),
           (''intensity'', JNum (intensity z))]"

definition json_of_particle :: "ParticleData \<Rightarrow> json" where
  "json_of_particle p =
     JObj [(''position'', json_of_vec3 (ParticleData.position p)),
           (''color'', JStr (color p)),
           (''speed'', JNum (speed p))]"

definition json_of_list :: "('a \<Rightarrow> json) \<Rightarrow> 'a list option \<Rightarrow> json option" where
  "json_of_list f v = map_option (\<lambda>xs. JArr (map f xs)) v"

text \<open>
  Mounting. \<open>ws_created\<close> says whether \<^verbatim>\<open>new WebSocket(url)\<close> returned a socket; when
  it throws, the \<^verbatim>\<open>catch\<close> block calls \<^verbatim>\<open>setIsLive(false)\<close> and \<^verbatim>\<open>ws\<close> stays
  \<^verbatim>\<open>null\<close>.
\<close>

definition mount :: "rng \<Rightarrow> bool \<Rightarrow> string option \<Rightarrow> component" where
  "mount rnd ws_created url =
     (let s = bootstrapDefaults rnd initial in
      if url_given url then
        Feed \<lparr>locations = json_of_list json_of_location (locations s),
              heatZones = json_of_list json_of_zone (heatZones s),
              crowdParticles = json_of_list json_of_particle (crowdParticles s),
              isLive = False,
              ws = (if ws_created then Some CONNECTING else None),
              console = []\<rparr>
      else Fallback s)"

text \<open>
  What the host can deliver to a mounted component: the four socket events, and the
  lapse of one interval period of 1000 ms.
\<close>

datatype event = WsOpen | WsClose | WsError | WsMessage string | IntervalElapsed

text \<open>
  The handlers: \<^verbatim>\<open>onopen\<close> sets \<^verbatim>\<open>isLive\<close>, \<^verbatim>\<open>onclose\<close> and \<^verbatim>\<open>onerror\<close>
  clear it, \<^verbatim>\<open>onmessage\<close> is the handler above. Socket events reach only a component
  that holds a socket, whose ready state the host moves along with them; the lapse of the
  period runs the callback only where the interval was registered.
\<close>

fun handle :: "rng \<Rightarrow> parser \<Rightarrow> component \<Rightarrow> event \<Rightarrow> component" where
  "handle rnd JSON_parse (Fallback c) IntervalElapsed = Fallback (tick rnd c)"
| "handle rnd JSON_parse (Fallback c) ev = Fallback c"
| "handle rnd JSON_parse (Feed c) IntervalElapsed = Feed c"
| "handle rnd JSON_parse (Feed c) WsOpen =
     (if ws c = None then Feed c else Feed (c\<lparr>isLive := True, ws := Some OPEN\<rparr>))"
| "handle rnd JSON_parse (Feed c) WsClose =
     (if ws c = None then Feed c else Feed (c\<lparr>isLive := False, ws := Some CLOSED\<rparr>))"
| "handle rnd JSON_parse (Feed c) WsError =
     (if ws c = None then Feed c else Feed (c\<lparr>isLive := False\<rparr>))"
| "handle rnd JSON_parse (Feed c) (WsMessage m) =
     (if ws c = None then Feed c else Feed (fst (ws_onmessage JSON_parse c m)))"

definition run :: "rng \<Rightarrow> parser \<Rightarrow> component \<Rightarrow> event list \<Rightarrow> component" where
  "run rnd JSON_parse c evs = foldl (handle rnd JSON_parse) c evs"

text \<open>The badge of the card: \<^verbatim>\<open>isLive ? 'Real-time' : 'Simulated'\<close> (line 408).\<close>

fun live :: "component \<Rightarrow> bool" where
  "live (Fallback c) = isLive c"
| "live (Feed c) = isLive c"

section \<open>The satellite ground: tiles\<close>

text \<open>
  \<^verbatim>\<open>lonLatToTile\<close> (lines 43-51), over the reals: \<^verbatim>\<open>Math.pow(2, z)\<close> is
  \<open>2 powr z\<close>, \<^verbatim>\<open>Math.floor\<close> is the floor.
\<close>

definition lonLatToTile :: "real \<Rightarrow> real \<Rightarrow> real \<Rightarrow> int \<times> int" where
  "lonLatToTile lon lat z =
     (let latRad = (lat * pi) / 180;
          n = 2 powr z;
          x = \<lfloor>((lon + 180) / 360) * n\<rfloor>;
          y = \<lfloor>(1 - ln (tan latRad + 1 / cos latRad) / pi) / 2 * n\<rfloor>
      in (x, y))"

text \<open>
  The tile formula in the words of the specification, for a zoom level \<open>zoom\<close>:
  \<open>x = floor((lon+180)/360 * 2^zoom)\<close> and
  \<open>y = floor((1 - ln(tan(lat_rad) + sec(lat_rad))/pi)/2 * 2^zoom)\<close>.
\<close>

definition sec :: "real \<Rightarrow> real" where
  "sec a = inverse (cos a)"

definition lat_rad :: "real \<Rightarrow> real" where
  "lat_rad lat = lat / 180 * pi"

definition web_mercator_tile :: "real \<Rightarrow> real \<Rightarrow> nat \<Rightarrow> int \<times> int" where
  "web_mercator_tile lon lat zoom =
     (\<lfloor>(lon + 180) / 360 * 2 ^ zoom\<rfloor>,
      \<lfloor>(1 - ln (tan (lat_rad lat) + sec (lat_rad lat)) / pi) / 2 * 2 ^ zoom\<rfloor>)"

text \<open>
  \<^verbatim>\<open>for (let i = lo; i <= hi; i++)\<close> with a body that appends to a list.
\<close>

function for_loop :: "int \<Rightarrow> int \<Rightarrow> (int \<Rightarrow> 'a list) \<Rightarrow> 'a list" where
  "for_loop i hi body = (if i \<le> hi then body i @ for_loop (i + 1) hi body else [])"
  by pat_completeness auto
termination
  by (relation "measure (\<lambda>(i, hi, body). nat (hi + 1 - i))") auto

declare for_loop.simps [simp del]

text \<open>
  The tiles \<^verbatim>\<open>load\<close> asks for (lines 77-82), in the order of the calls of
  \<^verbatim>\<open>fetchTile\<close>.
\<close>

definition tile_requests :: "int \<Rightarrow> int \<Rightarrow> int \<Rightarrow> (int \<times> int) list" where
  "tile_requests cx cy tilesRadius =
     for_loop (- tilesRadius) tilesRadius (\<lambda>dy.
       for_loop (- tilesRadius) tilesRadius (\<lambda>dx. [(cx + dx, cy + dy)]))"

text \<open>The canvas offsets of the second pair of loops (lines 87-94), in drawing order.\<close>

definition tile_offsets :: "int \<Rightarrow> int \<Rightarrow> (int \<times> int) list" where
  "tile_offsets tilesRadius tileSize =
     for_loop (- tilesRadius) tilesRadius (\<lambda>dy.
       for_loop (- tilesRadius) tilesRadius (\<lambda>dx.
         [((dx + tilesRadius) * tileSize, (dy + tilesRadius) * tileSize)]))"

text \<open>
  A canvas is the list of the \<^verbatim>\<open>drawImage(img, sx, sy, tileSize, tileSize)\<close> calls made
  on it. The ground holds \<^verbatim>\<open>textureRef.current\<close> and the \<^verbatim>\<open>map\<close> of the mesh
  material.
\<close>

type_synonym 'img canvas = "('img \<times> int \<times> int \<times> int \<times> int) list"

record 'img ground =
  textureRef :: "'img canvas option"
  material_map :: "'img canvas option"

datatype load_exn = TileLoadError

record 'img load_result =
  requested :: "(int \<times> int) list"
  ground_after :: "'img ground"
  thrown :: "load_exn option"

text \<open>
  The body of the \<^verbatim>\<open>try\<close> block of \<^verbatim>\<open>load\<close>. \<open>tiles\<close> says which tile images
  the server delivers: for a tile outside its domain \<^verbatim>\<open>img.onerror\<close> rejects the
  promise of that tile, and \<^verbatim>\<open>Promise.all\<close> rejects with it. Every call of
  \<^verbatim>\<open>fetchTile\<close> is made before the \<^verbatim>\<open>await\<close>. \<open>isCancelled\<close> is the flag as read
  after the \<^verbatim>\<open>await\<close>, \<open>mesh\<close> says whether \<^verbatim>\<open>meshRef.current\<close> is set.
\<close>

definition load_try ::
  "(int \<times> int \<rightharpoonup> 'img) \<Rightarrow> bool \<Rightarrow> bool \<Rightarrow> int \<Rightarrow> int \<Rightarrow> int \<Rightarrow> int \<Rightarrow> 'img ground \<Rightarrow> 'img load_result" where
  "load_try tiles isCancelled mesh cx cy tilesRadius tileSize g =
     (let promises = tile_requests cx cy tilesRadius in
      case those (map tiles promises) of
        None \<Rightarrow> \<lparr>requested = promises, ground_after = g, thrown = Some TileLoadError\<rparr>
      | Some images \<Rightarrow>
          if isCancelled then \<lparr>requested = promises, ground_after = g, thrown = None\<rparr>
          else
            let canvas = map (\<lambda>(img, sx, sy). (img, sx, sy, tileSize, tileSize))
                           (zip images (tile_offsets tilesRadius tileSize));
                g' = g\<lparr>textureRef := Some canvas,
                       material_map := (if mesh then Some canvas else material_map g)\<rparr>
            in \<lparr>requested = promises, ground_after = g', thrown = None\<rparr>)"

text \<open>
  \<^verbatim>\<open>load\<close>: the \<^verbatim>\<open>catch\<close> block ignores load errors, so nothing is thrown to the
  caller.
\<close>

definition load ::
  "(int \<times> int \<rightharpoonup> 'img) \<Rightarrow> bool \<Rightarrow> bool \<Rightarrow> int \<Rightarrow> int \<Rightarrow> int \<Rightarrow> int \<Rightarrow> 'img ground \<Rightarrow> 'img load_result" where
  "load tiles isCancelled mesh cx cy tilesRadius tileSize g =
     (load_try tiles isCancelled mesh cx cy tilesRadius tileSize g)\<lparr>thrown := None\<rparr>"

text \<open>
  The effect of \<^verbatim>\<open>SatelliteGround\<close> (lines 40-112): it computes the centre tile and,
  unless the canvas has no 2D context, runs \<^verbatim>\<open>load\<close>.
\<close>

definition SatelliteGround_effect ::
  "real \<Rightarrow> real \<Rightarrow> real \<Rightarrow> int \<Rightarrow> int \<Rightarrow> bool \<Rightarrow> (int \<times> int \<rightharpoonup> 'img) \<Rightarrow> bool \<Rightarrow> bool \<Rightarrow> 'img ground \<Rightarrow> 'img load_result" where
  "SatelliteGround_effect centerLat centerLon zoom tileSize tilesRadius ctx tiles isCancelled mesh g =
     (case lonLatToTile centerLon centerLat zoom of (cx, cy) \<Rightarrow>
        if \<not> ctx then \<lparr>requested = [], ground_after = g, thrown = None\<rparr>
        else load tiles isCancelled mesh cx cy tilesRadius tileSize g)"

section \<open>Auxiliary notions and sample inputs\<close>

text \<open>What a guarded statement leaves in a cell: the message's value if it is truthy.\<close>

definition keep_or :: "json option \<Rightarrow> json option \<Rightarrow> json option" where
  "keep_or v old = (if truthy_prop v then v else old)"

text \<open>The tile at offset \<open>(dy, dx)\<close> from the centre tile.\<close>

definition grid_point :: "int \<Rightarrow> int \<Rightarrow> int \<times> int \<Rightarrow> int \<times> int" where
  "grid_point cx cy d = (case d of (dy, dx) \<Rightarrow> (cx + dx, cy + dy))"

text \<open>A feed component in live mode, and a zone with the intensity 2.\<close>

definition sample_feed :: feed where
  "sample_feed =
     \<lparr>locations = Some (JArr []),
      heatZones = Some (JArr [JObj [(''intensity'', JNum 0.5)]]),
      crowdParticles = None, isLive = True, ws = Some OPEN, console = []\<rparr>"

definition zone2 :: json where
  "zone2 = JObj [(''center'', JArr [JNum 0, JNum 0, JNum 0]),
                 (''radius'', JNum 0.1), (''intensity'', JNum 2)]"

text \<open>A message whose three fields are all present and falsy.\<close>

definition falsy_update :: json where
  "falsy_update = JObj [(''locations'', JNull), (''heatZones'', JBool False),
                        (''crowdParticles'', JNum 0)]"

text \<open>
  Four message texts, the last one malformed, and \<^verbatim>\<open>JSON.parse\<close> restricted to them.
\<close>

definition msg_empty_zones :: string where
  "msg_empty_zones = ''{\"heatZones\":[]}''"

definition msg_zone2 :: string where
  "msg_zone2 = ''{\"heatZones\":[{\"center\":[0,0,0],\"radius\":0.1,\"intensity\":2.0}]}''"

definition msg_falsy :: string where
  "msg_falsy = ''{\"locations\":null,\"heatZones\":false,\"crowdParticles\":0}''"

definition msg_malformed :: string where
  "msg_malformed = ''{''"

definition sample_parse :: parser where
  "sample_parse =
     [msg_empty_zones \<mapsto> JObj [(''heatZones'', JArr [])],
      msg_zone2 \<mapsto> JObj [(''heatZones'', JArr [zone2])],
      msg_falsy \<mapsto> falsy_update]"

text \<open>A random source, and a fallback component whose values start out of range.\<close>

definition rnd_sample :: rng where
  "rnd_sample i = (if even i then 9 / 10 else 1 / 10)"

definition sample_fallback :: fallback where
  "sample_fallback =
     \<lparr>locations = None,
      heatZones = Some [\<lparr>center = (0, 0, 0), radius = 0.1, intensity = 2\<rparr>],
      crowdParticles = Some [\<lparr>position = (5, 0.02, -1.999), color = ''#10b981'', speed = 1\<rparr>],
      isLive = False, draws = 0\<rparr>"

text \<open>A tile server that delivers nothing, and a ground without a texture.\<close>

definition no_tiles :: "int \<times> int \<rightharpoonup> unit" where
  "no_tiles = Map.empty"

definition bare_ground :: "unit ground" where
  "bare_ground = \<lparr>textureRef = None, material_map = None\<rparr>"

section \<open>Properties of the message handler\<close>

lemma get_prop_not_null: "data \<noteq> JNull \<Longrightarrow> get_prop data k = Inr (field_of data k)"
  by (cases data) (simp_all add: field_of_def)

lemma field_of_null: "field_of JNull k = None"
  by (simp add: field_of_def)

lemma field_of_obj: "field_of (JObj kvs) k = map_of kvs k"
  by (simp add: field_of_def)

lemma onmessage_parsed:
  assumes "JSON_parse evt = Some data"
  shows "fst (ws_onmessage JSON_parse c evt) =
     c\<lparr>locations := keep_or (field_of data ''locations'') (locations c),
       heatZones := keep_or (field_of data ''heatZones'') (heatZones c),
       crowdParticles := keep_or (field_of data ''crowdParticles'') (crowdParticles c)\<rparr>"
proof (cases "data = JNull")
  case True
  then show ?thesis using assms
    by (simp add: ws_onmessage_def onmessage_try_def guarded_set_def keep_or_def field_of_null)
next
  case False
  then show ?thesis using assms
    by (simp add: ws_onmessage_def onmessage_try_def guarded_set_def keep_or_def
        get_prop_not_null setLocations_def setHeatZones_def setCrowdParticles_def)
qed

lemma onmessage_unparsed:
  "JSON_parse evt = None \<Longrightarrow> ws_onmessage JSON_parse c evt = (c, None)"
  by (simp add: ws_onmessage_def onmessage_try_def)

lemma onmessage_no_escape: "snd (ws_onmessage JSON_parse c evt) = None"
  by (simp add: ws_onmessage_def split: prod.splits)

lemma keep_or_absent: "keep_or None old = old"
  by (simp add: keep_or_def)

lemma keep_or_truthy: "truthy v \<Longrightarrow> keep_or (Some v) old = Some v"
  by (simp add: keep_or_def)

lemma keep_or_falsy: "\<not> truthy v \<Longrightarrow> keep_or (Some v) old = old"
  by (simp add: keep_or_def)

lemma keep_or_cases: "keep_or v old = old \<or> (\<exists>w. keep_or v old = Some w \<and> truthy w)"
  by (cases v) (auto simp: keep_or_def)

lemma falsy_values: "\<not> truthy v \<longleftrightarrow> v \<in> {JNull, JBool False, JNum 0, JStr []}"
  by (cases v) auto

lemma onmessage_field_cases:
  "locations (fst (ws_onmessage JSON_parse c evt)) = locations c
     \<or> (\<exists>v. locations (fst (ws_onmessage JSON_parse c evt)) = Some v \<and> truthy v)"
  "heatZones (fst (ws_onmessage JSON_parse c evt)) = heatZones c
     \<or> (\<exists>v. heatZones (fst (ws_onmessage JSON_parse c evt)) = Some v \<and> truthy v)"
  "crowdParticles (fst (ws_onmessage JSON_parse c evt)) = crowdParticles c
     \<or> (\<exists>v. crowdParticles (fst (ws_onmessage JSON_parse c evt)) = Some v \<and> truthy v)"
proof -
  show "locations (fst (ws_onmessage JSON_parse c evt)) = locations c
     \<or> (\<exists>v. locations (fst (ws_onmessage JSON_parse c evt)) = Some v \<and> truthy v)"
  proof (cases "JSON_parse evt")
    case None
    then show ?thesis by (simp add: onmessage_unparsed)
  next
    case (Some data)
    show ?thesis using keep_or_cases
      by (simp add: onmessage_parsed [of JSON_parse evt data c, OF Some])
  qed
  show "heatZones (fst (ws_onmessage JSON_parse c evt)) = heatZones c
     \<or> (\<exists>v. heatZones (fst (ws_onmessage JSON_parse c evt)) = Some v \<and> truthy v)"
  proof (cases "JSON_parse evt")
    case None
    then show ?thesis by (simp add: onmessage_unparsed)
  next
    case (Some data)
    show ?thesis using keep_or_cases
      by (simp add: onmessage_parsed [of JSON_parse evt data c, OF Some])
  qed
  show "crowdParticles (fst (ws_onmessage JSON_parse c evt)) = crowdParticles c
     \<or> (\<exists>v. crowdParticles (fst (ws_onmessage JSON_parse c evt)) = Some v \<and> truthy v)"
  proof (cases "JSON_parse evt")
    case None
    then show ?thesis by (simp add: onmessage_unparsed)
  next
    case (Some data)
    show ?thesis using keep_or_cases
      by (simp add: onmessage_parsed [of JSON_parse evt data c, OF Some])
  qed
qed

lemma sample_parse_values:
  "sample_parse msg_empty_zones = Some (JObj [(''heatZones'', JArr [])])"
  "sample_parse msg_zone2 = Some (JObj [(''heatZones'', JArr [zone2])])"
  "sample_parse msg_falsy = Some falsy_update"
  "sample_parse msg_malformed = None"
  by (simp_all add: sample_parse_def msg_empty_zones_def msg_zone2_def msg_falsy_def
      msg_malformed_def)

text \<open>
  Claim C1. For every current state and every parsed message, each of the three stored
  fields whose key the message omits is identical to its value before the message, and
  each field for which the message provides a value is replaced by exactly that value,
  whatever was stored before (no merging of elements). The message key of the particle
  field is \<^verbatim>\<open>crowdParticles\<close>. A message provides a value when the value passes the
  handler's guard, as every array does, the empty one included.
\<close>

theorem merge_keeps_omitted_replaces_provided:
  assumes "JSON_parse evt = Some data"
  shows "(field_of data ''locations'' = None \<longrightarrow>
            locations (fst (ws_onmessage JSON_parse c evt)) = locations c)
       \<and> (field_of data ''heatZones'' = None \<longrightarrow>
            heatZones (fst (ws_onmessage JSON_parse c evt)) = heatZones c)
       \<and> (field_of data ''crowdParticles'' = None \<longrightarrow>
            crowdParticles (fst (ws_onmessage JSON_parse c evt)) = crowdParticles c)
       \<and> (\<forall>v. field_of data ''locations'' = Some v \<and> truthy v \<longrightarrow>
            locations (fst (ws_onmessage JSON_parse c evt)) = Some v)
       \<and> (\<forall>v. field_of data ''heatZones'' = Some v \<and> truthy v \<longrightarrow>
            heatZones (fst (ws_onmessage JSON_parse c evt)) = Some v)
       \<and> (\<forall>v. field_of data ''crowdParticles'' = Some v \<and> truthy v \<longrightarrow>
            crowdParticles (fst (ws_onmessage JSON_parse c evt)) = Some v)
       \<and> (\<forall>xs. truthy (JArr xs))"
  by (simp add: onmessage_parsed [of JSON_parse evt data c, OF assms]
      keep_or_absent keep_or_truthy)

theorem merge_keeps_omitted_replaces_provided_witness:
  "sample_parse msg_empty_zones = Some (JObj [(''heatZones'', JArr [])])
   \<and> locations (fst (ws_onmessage sample_parse sample_feed msg_empty_zones))
       = locations sample_feed
   \<and> crowdParticles (fst (ws_onmessage sample_parse sample_feed msg_empty_zones))
       = crowdParticles sample_feed
   \<and> heatZones (fst (ws_onmessage sample_parse sample_feed msg_empty_zones))
       = Some (JArr [])
   \<and> heatZones sample_feed \<noteq> Some (JArr [])"
  using merge_keeps_omitted_replaces_provided
    [of sample_parse msg_empty_zones "JObj [(''heatZones'', JArr [])]" sample_feed]
  by (simp add: sample_parse_values field_of_obj) (simp add: sample_feed_def)

text \<open>
  Claim C5. A message whose only field is a \<^verbatim>\<open>heatZones\<close> list is stored as that very
  list, so every intensity in it, in range or not, is stored as given; the stored
  locations and particles stay as they were.
\<close>

theorem out_of_range_intensity_stored_as_given:
  assumes "JSON_parse evt = Some (JObj [(''heatZones'', JArr zs)])"
  shows "heatZones (fst (ws_onmessage JSON_parse c evt)) = Some (JArr zs)
       \<and> stored_intensities (heatZones (fst (ws_onmessage JSON_parse c evt)))
           = map (\<lambda>z. field_of z ''intensity'') zs
       \<and> locations (fst (ws_onmessage JSON_parse c evt)) = locations c
       \<and> crowdParticles (fst (ws_onmessage JSON_parse c evt)) = crowdParticles c"
  by (simp add: onmessage_parsed [of JSON_parse evt _ c, OF assms] field_of_obj
      keep_or_absent keep_or_truthy)

theorem out_of_range_intensity_stored_as_given_witness:
  "sample_parse msg_zone2 = Some (JObj [(''heatZones'', JArr [zone2])])
   \<and> stored_intensities (heatZones (fst (ws_onmessage sample_parse sample_feed msg_zone2)))
       = [Some (JNum 2)]
   \<and> locations (fst (ws_onmessage sample_parse sample_feed msg_zone2))
       = locations sample_feed
   \<and> crowdParticles (fst (ws_onmessage sample_parse sample_feed msg_zone2))
       = crowdParticles sample_feed"
  using out_of_range_intensity_stored_as_given
    [of sample_parse msg_zone2 "[zone2]" sample_feed]
  by (simp add: sample_parse_values) (simp add: field_of_obj zone2_def)

text \<open>
  Claim C6, as stated, fails: the text \<^verbatim>\<open>{\<close> does not parse, and the handler writes
  nothing to the console.
\<close>

theorem malformed_message_not_logged:
  "sample_parse msg_malformed = None
   \<and> console (fst (ws_onmessage sample_parse sample_feed msg_malformed)) = []"
  by (simp add: sample_parse_values onmessage_unparsed) (simp add: sample_feed_def)

text \<open>
  Claim C6, amended. For every message that fails to parse, the handler returns the state
  it was given: the store is unchanged, no field was reconciled, nothing was written to
  the console, the socket is in the ready state it had; and no exception leaves the
  handler.
\<close>

theorem malformed_message_discarded_silently:
  assumes "JSON_parse evt = None"
  shows "ws_onmessage JSON_parse c evt = (c, None)"
  using assms by (rule onmessage_unparsed)

theorem malformed_message_discarded_silently_witness:
  "sample_parse msg_malformed = None
   \<and> ws_onmessage sample_parse sample_feed msg_malformed = (sample_feed, None)
   \<and> ws sample_feed = Some OPEN"
  using malformed_message_discarded_silently [of sample_parse msg_malformed sample_feed]
  by (simp add: sample_parse_values) (simp add: sample_feed_def)

text \<open>
  Claim C10. The handler decides by truthiness, not by the presence of a key: a field that
  is present with a falsy value (\<^verbatim>\<open>null\<close>, \<^verbatim>\<open>false\<close>, \<^verbatim>\<open>0\<close> or the empty string)
  leaves the stored field as it was, as an absent one does; and whatever a message, parsed
  or not, does to a stored field, it either leaves it or sets it to a truthy value, so
  never to \<^verbatim>\<open>null\<close> or \<^verbatim>\<open>undefined\<close>.
\<close>

theorem falsy_field_like_absent:
  "(\<forall>data. JSON_parse evt = Some data \<and> \<not> truthy_prop (field_of data ''locations'') \<longrightarrow>
        locations (fst (ws_onmessage JSON_parse c evt)) = locations c)
   \<and> (\<forall>data. JSON_parse evt = Some data \<and> \<not> truthy_prop (field_of data ''heatZones'') \<longrightarrow>
        heatZones (fst (ws_onmessage JSON_parse c evt)) = heatZones c)
   \<and> (\<forall>data. JSON_parse evt = Some data
        \<and> \<not> truthy_prop (field_of data ''crowdParticles'') \<longrightarrow>
        crowdParticles (fst (ws_onmessage JSON_parse c evt)) = crowdParticles c)
   \<and> (\<forall>p. \<not> truthy_prop p \<longleftrightarrow>
        p \<in> {None, Some JNull, Some (JBool False), Some (JNum 0), Some (JStr [])})
   \<and> (locations (fst (ws_onmessage JSON_parse c evt)) = locations c
        \<or> (\<exists>v. locations (fst (ws_onmessage JSON_parse c evt)) = Some v \<and> truthy v))
   \<and> (heatZones (fst (ws_onmessage JSON_parse c evt)) = heatZones c
        \<or> (\<exists>v. heatZones (fst (ws_onmessage JSON_parse c evt)) = Some v \<and> truthy v))
   \<and> (crowdParticles (fst (ws_onmessage JSON_parse c evt)) = crowdParticles c
        \<or> (\<exists>v. crowdParticles (fst (ws_onmessage JSON_parse c evt)) = Some v
              \<and> truthy v))"
proof -
  have l: "\<forall>data. JSON_parse evt = Some data
        \<and> \<not> truthy_prop (field_of data ''locations'') \<longrightarrow>
        locations (fst (ws_onmessage JSON_parse c evt)) = locations c"
    by (intro allI impI) (simp add: onmessage_parsed [of JSON_parse evt _ c] keep_or_def)
  have h: "\<forall>data. JSON_parse evt = Some data
        \<and> \<not> truthy_prop (field_of data ''heatZones'') \<longrightarrow>
        heatZones (fst (ws_onmessage JSON_parse c evt)) = heatZones c"
    by (intro allI impI) (simp add: onmessage_parsed [of JSON_parse evt _ c] keep_or_def)
  have p: "\<forall>data. JSON_parse evt = Some data
        \<and> \<not> truthy_prop (field_of data ''crowdParticles'') \<longrightarrow>
        crowdParticles (fst (ws_onmessage JSON_parse c evt)) = crowdParticles c"
    by (intro allI impI) (simp add: onmessage_parsed [of JSON_parse evt _ c] keep_or_def)
  have f: "\<forall>p. \<not> truthy_prop p \<longleftrightarrow>
        p \<in> {None, Some JNull, Some (JBool False), Some (JNum 0), Some (JStr [])}"
  proof
    fix p show "\<not> truthy_prop p \<longleftrightarrow>
        p \<in> {None, Some JNull, Some (JBool False), Some (JNum 0), Some (JStr [])}"
      using falsy_values by (cases p) auto
  qed
  from l h p f onmessage_field_cases [of JSON_parse c evt] show ?thesis by blast
qed

theorem falsy_field_like_absent_witness:
  "sample_parse msg_falsy = Some falsy_update
   \<and> field_of falsy_update ''locations'' = Some JNull
   \<and> field_of falsy_update ''heatZones'' = Some (JBool False)
   \<and> field_of falsy_update ''crowdParticles'' = Some (JNum 0)
   \<and> locations (fst (ws_onmessage sample_parse sample_feed msg_falsy)) = locations sample_feed
   \<and> heatZones (fst (ws_onmessage sample_parse sample_feed msg_falsy)) = heatZones sample_feed
   \<and> crowdParticles (fst (ws_onmessage sample_parse sample_feed msg_falsy))
       = crowdParticles sample_feed"
proof -
  have v: "sample_parse msg_falsy = Some falsy_update" by (rule sample_parse_values)
  have fs: "field_of falsy_update ''locations'' = Some JNull"
    "field_of falsy_update ''heatZones'' = Some (JBool False)"
    "field_of falsy_update ''crowdParticles'' = Some (JNum 0)"
    by (simp_all add: falsy_update_def field_of_obj)
  have ts: "\<not> truthy_prop (field_of falsy_update ''locations'')"
    "\<not> truthy_prop (field_of falsy_update ''heatZones'')"
    "\<not> truthy_prop (field_of falsy_update ''crowdParticles'')"
    by (simp_all add: fs)
  note t = falsy_field_like_absent [of sample_parse msg_falsy sample_feed]
  from t v ts(1)
  have "locations (fst (ws_onmessage sample_parse sample_feed msg_falsy))
          = locations sample_feed" by blast
  moreover from t v ts(2)
  have "heatZones (fst (ws_onmessage sample_parse sample_feed msg_falsy))
          = heatZones sample_feed" by blast
  moreover from t v ts(3)
  have "crowdParticles (fst (ws_onmessage sample_parse sample_feed msg_falsy))
          = crowdParticles sample_feed" by blast
  ultimately show ?thesis using v fs by blast
qed

section \<open>Properties of seeding\<close>

lemma seedParticle_color:
  "case ParticleData.position (seedParticle rnd k) of (x, y, z) \<Rightarrow>
     color (seedParticle rnd k) = (if \<bar>x\<bar> + \<bar>z\<bar> < 1.5 then ''#ef4444'' else ''#10b981'')"
  by (simp add: seedParticle_def Let_def)

lemma seedParticles_color:
  "p \<in> set (seedParticles rnd k) \<Longrightarrow>
     (case ParticleData.position p of (x, y, z) \<Rightarrow>
        color p = (if \<bar>x\<bar> + \<bar>z\<bar> < 1.5 then ''#ef4444'' else ''#10b981''))"
proof -
  assume "p \<in> set (seedParticles rnd k)"
  then obtain i where "p = seedParticle rnd (k + 3 * i)"
    unfolding seedParticles_def set_map by blast
  then show ?thesis using seedParticle_color [of rnd "k + 3 * i"] by simp
qed

lemma length_seedParticles: "length (seedParticles rnd k) = 200"
  unfolding seedParticles_def length_map length_upt by simp

lemma seedParticle_mem: "i < 200 \<Longrightarrow> seedParticle rnd (3 * i) \<in> set (seedParticles rnd 0)"
  unfolding seedParticles_def set_map set_upt by simp

lemma bootstrap_fields:
  "locations (bootstrapDefaults rnd c) = Some seedLocations"
  "heatZones (bootstrapDefaults rnd c) = Some seedHeat"
  "crowdParticles (bootstrapDefaults rnd c) = Some (seedParticles rnd (draws c))"
  "isLive (bootstrapDefaults rnd c) = isLive c"
  by (simp_all add: bootstrapDefaults_def)

lemma initial_fields: "draws initial = 0" "isLive initial = False"
  by (simp_all add: initial_def)

lemma mount_not_live: "\<not> live (mount rnd ws_created url)"
  by (simp add: mount_def Let_def bootstrap_fields initial_fields)

text \<open>
  Claim C4. Seeding the initial state once stores exactly 4 locations, exactly 4 heat zones
  and exactly 200 particles, and leaves the status at simulated (\<^verbatim>\<open>isLive\<close> is false,
  also for the freshly mounted component); every seeded particle with
  \<open>\<bar>x\<bar> + \<bar>z\<bar> < 1.5\<close> carries the high-density colour \<^verbatim>\<open>#ef4444\<close>, every other one
  the low-density colour \<^verbatim>\<open>#10b981\<close>.
\<close>

theorem seed_snapshot:
  "locations (bootstrapDefaults rnd initial) = Some seedLocations
   \<and> length seedLocations = 4
   \<and> heatZones (bootstrapDefaults rnd initial) = Some seedHeat
   \<and> length seedHeat = 4
   \<and> crowdParticles (bootstrapDefaults rnd initial) = Some (seedParticles rnd 0)
   \<and> length (seedParticles rnd 0) = 200
   \<and> \<not> isLive (bootstrapDefaults rnd initial)
   \<and> \<not> live (mount rnd ws_created url)
   \<and> (\<forall>p \<in> set (seedParticles rnd 0).
        case ParticleData.position p of (x, y, z) \<Rightarrow>
          color p = (if \<bar>x\<bar> + \<bar>z\<bar> < 1.5 then ''#ef4444'' else ''#10b981''))"
proof -
  have col: "\<forall>p \<in> set (seedParticles rnd 0).
        case ParticleData.position p of (x, y, z) \<Rightarrow>
          color p = (if \<bar>x\<bar> + \<bar>z\<bar> < 1.5 then ''#ef4444'' else ''#10b981'')"
    by (rule ballI) (erule seedParticles_color)
  have len: "length seedLocations = 4" "length seedHeat = 4"
    by (simp_all add: seedLocations_def seedHeat_def)
  show ?thesis
    using col len mount_not_live [of rnd ws_created url]
    by (simp only: bootstrap_fields initial_fields length_seedParticles simp_thms)
qed

theorem seed_snapshot_witness:
  "seedParticle rnd_sample 0 \<in> set (seedParticles rnd_sample 0)
   \<and> ParticleData.position (seedParticle rnd_sample 0) = (1.6, 0.02, - 1.6)
   \<and> color (seedParticle rnd_sample 0) = ''#10b981''"
proof -
  have m: "seedParticle rnd_sample 0 \<in> set (seedParticles rnd_sample 0)"
    using seedParticle_mem [of 0 rnd_sample] by simp
  have p: "ParticleData.position (seedParticle rnd_sample 0) = (1.6, 0.02, - 1.6)"
    by (simp add: seedParticle_def rnd_sample_def Let_def)
  from seed_snapshot [of rnd_sample True None]
  have "\<forall>p \<in> set (seedParticles rnd_sample 0).
          case ParticleData.position p of (x, y, z) \<Rightarrow>
            color p = (if \<bar>x\<bar> + \<bar>z\<bar> < 1.5 then ''#ef4444'' else ''#10b981'')"
    by (elim conjE)
  from this m
  have "case ParticleData.position (seedParticle rnd_sample 0) of (x, y, z) \<Rightarrow>
          color (seedParticle rnd_sample 0)
            = (if \<bar>x\<bar> + \<bar>z\<bar> < 1.5 then ''#ef4444'' else ''#10b981'')"
    by (rule bspec)
  with p have "color (seedParticle rnd_sample 0) = ''#10b981''" by simp
  with m p show ?thesis by blast
qed

section \<open>Properties of the fallback tick\<close>

lemma tick_zone_bounds: "0.05 \<le> intensity (tick_zone r z) \<and> intensity (tick_zone r z) \<le> 1"
  by (simp add: tick_zone_def)

lemma tick_particle_bounds:
  "case ParticleData.position (tick_particle r1 r2 p) of (x, y, z) \<Rightarrow>
     - 2 \<le> x \<and> x \<le> 2 \<and> - 2 \<le> z \<and> z \<le> 2"
  by (simp add: tick_particle_def Let_def split: prod.splits)

lemma map_zones_bounds:
  "z \<in> set (map_zones rnd k zs) \<Longrightarrow> 0.05 \<le> intensity z \<and> intensity z \<le> 1"
proof (induction zs arbitrary: k)
  case Nil
  then show ?case by simp
next
  case (Cons y ys)
  then show ?case using tick_zone_bounds [of "rnd k" y] by auto
qed

lemma map_particles_bounds:
  "p \<in> set (map_particles rnd k ps) \<Longrightarrow>
     (case ParticleData.position p of (x, y, z) \<Rightarrow> - 2 \<le> x \<and> x \<le> 2 \<and> - 2 \<le> z \<and> z \<le> 2)"
proof (induction ps arbitrary: k)
  case Nil
  then show ?case by simp
next
  case (Cons q qs)
  then show ?case using tick_particle_bounds [of "rnd k" "rnd (Suc k)" q] by auto
qed

lemma length_map_zones: "length (map_zones rnd k zs) = length zs"
  by (induction zs arbitrary: k) auto

lemma nth_map_zones:
  "i < length zs \<Longrightarrow> map_zones rnd k zs ! i = tick_zone (rnd (k + i)) (zs ! i)"
proof (induction zs arbitrary: k i)
  case Nil
  then show ?case by simp
next
  case (Cons z zs)
  then show ?case by (cases i) auto
qed

lemma nth_map_particles:
  "i < length ps \<Longrightarrow>
     map_particles rnd k ps ! i
       = tick_particle (rnd (k + 2 * i)) (rnd (Suc (k + 2 * i))) (ps ! i)"
proof (induction ps arbitrary: k i)
  case Nil
  then show ?case by simp
next
  case (Cons p ps)
  show ?case
  proof (cases i)
    case 0
    then show ?thesis by simp
  next
    case (Suc j)
    with Cons.prems have "j < length ps" by simp
    from Cons.IH [OF this, of "k + 2"] Suc show ?thesis by simp
  qed
qed

lemma map_zones_Nil: "map_zones rnd k zs = [] \<longleftrightarrow> zs = []"
  by (cases zs) auto

lemma map_particles_Nil: "map_particles rnd k ps = [] \<longleftrightarrow> ps = []"
  by (cases ps) auto

lemma tick_heatZones:
  "or_empty (heatZones (tick rnd c)) = map_zones rnd (draws c) (or_empty (heatZones c))"
  by (cases "heatZones c")
     (auto simp: tick_def heatZones_updater_def or_empty_def Let_def map_zones_Nil)

lemma tick_crowdParticles:
  "or_empty (crowdParticles (tick rnd c)) =
     map_particles rnd (draws c + length (or_empty (heatZones c))) (or_empty (crowdParticles c))"
  by (cases "crowdParticles c")
     (auto simp: tick_def crowdParticles_updater_def or_empty_def Let_def map_particles_Nil)

lemma tick_zones_bounded:
  "\<forall>z \<in> set (or_empty (heatZones (tick rnd c))). 0.05 \<le> intensity z \<and> intensity z \<le> 1"
  unfolding tick_heatZones using map_zones_bounds by blast

lemma tick_particles_bounded:
  "\<forall>p \<in> set (or_empty (crowdParticles (tick rnd c))).
     case ParticleData.position p of (x, y, z) \<Rightarrow> - 2 \<le> x \<and> x \<le> 2 \<and> - 2 \<le> z \<and> z \<le> 2"
  unfolding tick_crowdParticles by (rule ballI) (erule map_particles_bounds)

lemma ticks_last: "ticks (Suc n) rnd c = tick rnd (ticks n rnd c)"
  by (induction n arbitrary: c) simp_all

lemma delta_ranges:
  "0 \<le> r \<Longrightarrow> r < 1 \<Longrightarrow>
     - 0.05 \<le> intensity_delta r \<and> intensity_delta r \<le> 0.05
     \<and> - 0.01 \<le> coord_delta r \<and> coord_delta r \<le> 0.01"
  by (simp add: intensity_delta_def coord_delta_def)

lemma sample_tick:
  "ticks (Suc 0) rnd_sample sample_fallback =
     \<lparr>locations = None,
      heatZones = Some [\<lparr>center = (0, 0, 0), radius = 0.1, intensity = 1\<rparr>],
      crowdParticles = Some [\<lparr>position = (2, 0.02, -1.991), color = ''#10b981'', speed = 1\<rparr>],
      isLive = False, draws = 3\<rparr>"
  by (simp add: sample_fallback_def tick_def heatZones_updater_def crowdParticles_updater_def
      or_empty_def Let_def tick_zone_def tick_particle_def intensity_delta_def coord_delta_def
      rnd_sample_def)

text \<open>
  Claim C2. For every state of the fallback component, every random source and every
  number \<open>n + 1\<close> of successive ticks, every heat-zone intensity of the resulting state
  lies in \<open>[0.05, 1]\<close> (so it is never 0 and never above 1) and the \<open>x\<close> and \<open>z\<close>
  coordinates of every particle lie in \<open>[-2, 2]\<close>. One tick sets the intensity of the
  \<open>i\<close>-th zone to the old one plus a delta, clamped, and the \<open>x\<close> and \<open>z\<close> of the \<open>i\<close>-th
  particle to the old ones plus a delta each, clamped; for a random number in \<open>[0, 1)\<close>
  the intensity delta lies in \<open>[-0.05, 0.05]\<close> and the coordinate delta in
  \<open>[-0.01, 0.01]\<close>.
\<close>

theorem fallback_ticks_stay_in_bounds:
  "(\<forall>z \<in> set (or_empty (heatZones (ticks (Suc n) rnd c))).
       0.05 \<le> intensity z \<and> intensity z \<le> 1 \<and> intensity z \<noteq> 0)
   \<and> (\<forall>p \<in> set (or_empty (crowdParticles (ticks (Suc n) rnd c))).
       case ParticleData.position p of (x, y, z) \<Rightarrow> - 2 \<le> x \<and> x \<le> 2 \<and> - 2 \<le> z \<and> z \<le> 2)
   \<and> (\<forall>i < length (or_empty (heatZones c)).
        intensity (or_empty (heatZones (tick rnd c)) ! i) =
          max 0.05 (min 1 (intensity (or_empty (heatZones c) ! i)
             + intensity_delta (rnd (draws c + i)))))
   \<and> (\<forall>i < length (or_empty (crowdParticles c)).
        ParticleData.position (or_empty (crowdParticles (tick rnd c)) ! i) =
          (case ParticleData.position (or_empty (crowdParticles c) ! i) of (x, y, z) \<Rightarrow>
             (max (- 2) (min 2 (x + coord_delta
                (rnd (draws c + length (or_empty (heatZones c)) + 2 * i)))),
              y,
              max (- 2) (min 2 (z + coord_delta
                (rnd (Suc (draws c + length (or_empty (heatZones c)) + 2 * i))))))))
   \<and> (\<forall>r. 0 \<le> r \<and> r < 1 \<longrightarrow>
        - 0.05 \<le> intensity_delta r \<and> intensity_delta r \<le> 0.05
        \<and> - 0.01 \<le> coord_delta r \<and> coord_delta r \<le> 0.01)"
proof (intro conjI)
  show "\<forall>z \<in> set (or_empty (heatZones (ticks (Suc n) rnd c))).
       0.05 \<le> intensity z \<and> intensity z \<le> 1 \<and> intensity z \<noteq> 0"
    unfolding ticks_last using tick_zones_bounded [of rnd "ticks n rnd c"] by fastforce
  show "\<forall>p \<in> set (or_empty (crowdParticles (ticks (Suc n) rnd c))).
       case ParticleData.position p of (x, y, z) \<Rightarrow> - 2 \<le> x \<and> x \<le> 2 \<and> - 2 \<le> z \<and> z \<le> 2"
    unfolding ticks_last by (rule tick_particles_bounded)
  show "\<forall>i < length (or_empty (heatZones c)).
        intensity (or_empty (heatZones (tick rnd c)) ! i) =
          max 0.05 (min 1 (intensity (or_empty (heatZones c) ! i)
             + intensity_delta (rnd (draws c + i))))"
    by (simp add: tick_heatZones nth_map_zones tick_zone_def)
  show "\<forall>i < length (or_empty (crowdParticles c)).
        ParticleData.position (or_empty (crowdParticles (tick rnd c)) ! i) =
          (case ParticleData.position (or_empty (crowdParticles c) ! i) of (x, y, z) \<Rightarrow>
             (max (- 2) (min 2 (x + coord_delta
                (rnd (draws c + length (or_empty (heatZones c)) + 2 * i)))),
              y,
              max (- 2) (min 2 (z + coord_delta
                (rnd (Suc (draws c + length (or_empty (heatZones c)) + 2 * i)))))))"
    by (simp add: tick_crowdParticles nth_map_particles tick_particle_def Let_def
        split: prod.splits)
  show "\<forall>r. 0 \<le> r \<and> r < 1 \<longrightarrow>
        - 0.05 \<le> intensity_delta r \<and> intensity_delta r \<le> 0.05
        \<and> - 0.01 \<le> coord_delta r \<and> coord_delta r \<le> 0.01"
    using delta_ranges by blast
qed

theorem fallback_ticks_stay_in_bounds_witness:
  "or_empty (heatZones (ticks (Suc 0) rnd_sample sample_fallback))
     = [\<lparr>center = (0, 0, 0), radius = 0.1, intensity = 1\<rparr>]
   \<and> or_empty (crowdParticles (ticks (Suc 0) rnd_sample sample_fallback))
     = [\<lparr>position = (2, 0.02, -1.991), color = ''#10b981'', speed = 1\<rparr>]
   \<and> 0 < length (or_empty (heatZones sample_fallback))
   \<and> 0 < length (or_empty (crowdParticles sample_fallback))
   \<and> 0 \<le> rnd_sample 0 \<and> rnd_sample 0 < 1
   \<and> intensity_delta (rnd_sample 0) = 0.04
   \<and> coord_delta (rnd_sample 1) = - 0.008"
proof -
  have zs: "or_empty (heatZones (ticks (Suc 0) rnd_sample sample_fallback))
     = [\<lparr>center = (0, 0, 0), radius = 0.1, intensity = 1\<rparr>]"
    by (simp only: sample_tick) (simp add: or_empty_def)
  have ps: "or_empty (crowdParticles (ticks (Suc 0) rnd_sample sample_fallback))
     = [\<lparr>position = (2, 0.02, -1.991), color = ''#10b981'', speed = 1\<rparr>]"
    by (simp only: sample_tick) (simp add: or_empty_def)
  have ls: "0 < length (or_empty (heatZones sample_fallback))"
    "0 < length (or_empty (crowdParticles sample_fallback))"
    by (simp_all add: sample_fallback_def or_empty_def)
  have ds: "0 \<le> rnd_sample 0 \<and> rnd_sample 0 < 1"
    "intensity_delta (rnd_sample 0) = 0.04" "coord_delta (rnd_sample 1) = - 0.008"
    by (simp_all add: rnd_sample_def intensity_delta_def coord_delta_def)
  from fallback_ticks_stay_in_bounds [of 0 rnd_sample sample_fallback] zs ps ls ds
  show ?thesis by simp
qed

section \<open>Properties of the mounted component\<close>

lemma url_given_Some: "url_given (Some u) = (u \<noteq> [])"
  by (simp add: url_given_def)

lemma mount_feed:
  assumes "url_given url"
  shows "\<exists>c. mount rnd w url = Feed c \<and> \<not> isLive c
           \<and> ws c = (if w then Some CONNECTING else None)"
  using assms by (simp add: mount_def Let_def)

lemma run_Nil: "run rnd JSON_parse c [] = c"
  by (simp add: run_def)

lemma run_Cons:
  "run rnd JSON_parse c (e # es) = run rnd JSON_parse (handle rnd JSON_parse c e) es"
  by (simp add: run_def)

lemma run_snoc:
  "run rnd JSON_parse c (es @ [e]) = handle rnd JSON_parse (run rnd JSON_parse c es) e"
  by (simp add: run_def)

lemma handle_feed_kind: "\<exists>c'. handle rnd JSON_parse (Feed c) e = Feed c'"
  by (cases e) simp_all

lemma run_feed_kind: "\<exists>c'. run rnd JSON_parse (Feed c) es = Feed c'"
proof (induction es arbitrary: c)
  case Nil
  then show ?case by (simp add: run_Nil)
next
  case (Cons e es)
  obtain c1 where "handle rnd JSON_parse (Feed c) e = Feed c1"
    using handle_feed_kind by blast
  with Cons.IH [of c1] show ?case by (simp add: run_Cons)
qed

text \<open>
  With a feed URL configured no interval exists: whatever has happened to the socket, the
  lapse of a period changes nothing.
\<close>

lemma feed_interval_inert:
  assumes "url_given url"
  shows "run rnd JSON_parse (mount rnd w url) (es @ [IntervalElapsed])
           = run rnd JSON_parse (mount rnd w url) es"
proof -
  obtain c where "mount rnd w url = Feed c" using mount_feed [OF assms] by blast
  moreover obtain c' where "run rnd JSON_parse (Feed c) es = Feed c'"
    using run_feed_kind by blast
  ultimately show ?thesis by (simp add: run_snoc)
qed

lemma feed_open_close_not_live:
  assumes "url_given url"
  shows "\<not> live (run rnd JSON_parse (mount rnd w url) [WsOpen, WsClose])"
proof -
  obtain c where c: "mount rnd w url = Feed c" "\<not> isLive c"
    using mount_feed [OF assms] by blast
  then show ?thesis by (simp add: run_Cons run_Nil)
qed

text \<open>Without a feed URL the interval is registered and each lapse runs one tick.\<close>

lemma fallback_interval_ticks:
  assumes "\<not> url_given url"
  shows "run rnd JSON_parse (mount rnd w url) [IntervalElapsed]
           = Fallback (tick rnd (bootstrapDefaults rnd initial))"
  using assms by (simp add: mount_def Let_def run_Cons run_Nil)

text \<open>
  Claim C3 asks that the simulator drive periodic mutation whenever the component is not
  live, also after a configured feed has closed. The code at that input: mounted with the
  URL \<^verbatim>\<open>ws://feed\<close>, the socket opens and closes, and a period elapses. The component
  is then not live, and the elapsed period has changed nothing, for no interval was ever
  registered.
\<close>

theorem no_fallback_after_feed_loss:
  "run rnd JSON_parse (mount rnd True (Some ''ws://feed''))
       [WsOpen, WsClose, IntervalElapsed]
     = run rnd JSON_parse (mount rnd True (Some ''ws://feed'')) [WsOpen, WsClose]
   \<and> \<not> live (run rnd JSON_parse (mount rnd True (Some ''ws://feed''))
       [WsOpen, WsClose, IntervalElapsed])"
proof -
  have u: "url_given (Some ''ws://feed'')" by (simp add: url_given_Some)
  have "run rnd JSON_parse (mount rnd True (Some ''ws://feed''))
          ([WsOpen, WsClose] @ [IntervalElapsed])
     = run rnd JSON_parse (mount rnd True (Some ''ws://feed'')) [WsOpen, WsClose]"
    using u by (rule feed_interval_inert)
  then have e: "run rnd JSON_parse (mount rnd True (Some ''ws://feed''))
          [WsOpen, WsClose, IntervalElapsed]
     = run rnd JSON_parse (mount rnd True (Some ''ws://feed'')) [WsOpen, WsClose]"
    by simp
  show ?thesis unfolding e using feed_open_close_not_live [OF u] by simp
qed

section \<open>Properties of the tile grid\<close>

lemma for_loop_concat: "for_loop i hi body = concat (map body [i..hi])"
proof (induction i hi body rule: for_loop.induct)
  case (1 i hi body)
  show ?case
  proof (cases "i \<le> hi")
    case True
    then have "[i..hi] = i # [i + 1..hi]" by (simp add: upto_rec1)
    with True 1 show ?thesis by (subst for_loop.simps) simp
  next
    case False
    then show ?thesis by (subst for_loop.simps) simp
  qed
qed

lemma tile_requests_product:
  "tile_requests cx cy r = map (grid_point cx cy) (List.product [- r..r] [- r..r])"
  by (simp add: tile_requests_def for_loop_concat product_concat_map map_concat
      grid_point_def comp_def)

lemma inj_grid_point: "inj (grid_point cx cy)"
  by (auto simp: inj_on_def grid_point_def)

lemma distinct_tile_requests: "distinct (tile_requests cx cy r)"
  unfolding tile_requests_product
  by (simp add: distinct_map distinct_product inj_on_subset [OF inj_grid_point subset_UNIV])

lemma length_tile_requests:
  "0 \<le> r \<Longrightarrow> int (length (tile_requests cx cy r)) = (2 * r + 1)\<^sup>2"
  unfolding tile_requests_product
  by (simp add: power2_eq_square)

lemma set_tile_requests:
  "(x, y) \<in> set (tile_requests cx cy r) \<longleftrightarrow> \<bar>x - cx\<bar> \<le> r \<and> \<bar>y - cy\<bar> \<le> r"
proof
  assume "(x, y) \<in> set (tile_requests cx cy r)"
  then show "\<bar>x - cx\<bar> \<le> r \<and> \<bar>y - cy\<bar> \<le> r"
    unfolding tile_requests_product by (auto simp: grid_point_def)
next
  assume a: "\<bar>x - cx\<bar> \<le> r \<and> \<bar>y - cy\<bar> \<le> r"
  then have "(y - cy, x - cx) \<in> set (List.product [- r..r] [- r..r])" by auto
  moreover have "grid_point cx cy (y - cy, x - cx) = (x, y)" by (simp add: grid_point_def)
  ultimately show "(x, y) \<in> set (tile_requests cx cy r)"
    unfolding tile_requests_product set_map by (metis imageI)
qed

lemma tile_requests_0: "tile_requests cx cy 0 = [(cx, cy)]"
  by (simp add: tile_requests_product grid_point_def)

lemma those_None: "those (map f xs) = None \<longleftrightarrow> (\<exists>x \<in> set xs. f x = None)"
  by (induction xs) (auto split: option.splits)

lemma load_requested:
  "requested (load tiles isCancelled mesh cx cy r ts g) = tile_requests cx cy r"
  by (simp add: load_def load_try_def Let_def split: option.splits)

lemma load_thrown: "thrown (load tiles isCancelled mesh cx cy r ts g) = None"
  by (simp add: load_def)

lemma load_failed:
  assumes "t \<in> set (tile_requests cx cy r)" and "tiles t = None"
  shows "load tiles isCancelled mesh cx cy r ts g =
           \<lparr>requested = tile_requests cx cy r, ground_after = g, thrown = None\<rparr>"
proof -
  have "those (map tiles (tile_requests cx cy r)) = None"
    using assms those_None by blast
  then show ?thesis by (simp add: load_def load_try_def Let_def)
qed

lemma effect_requested:
  "requested (SatelliteGround_effect centerLat centerLon zoom tileSize tilesRadius True tiles isCancelled mesh g)
     = tile_requests (fst (lonLatToTile centerLon centerLat zoom))
         (snd (lonLatToTile centerLon centerLat zoom)) tilesRadius"
  by (simp add: SatelliteGround_effect_def load_requested split: prod.splits)

text \<open>
  Claim C7, as stated, fails: with a server that delivers nothing, the one requested tile
  \<open>(0, 0)\<close> fails to load, and \<^verbatim>\<open>load\<close> ends without an error.
\<close>

theorem tile_failure_raises_nothing:
  "(0, 0) \<in> set (requested (load no_tiles False True 0 0 0 256 bare_ground))
   \<and> no_tiles (0, 0) = None
   \<and> thrown (load no_tiles False True 0 0 0 256 bare_ground) \<noteq> Some TileLoadError"
  by (simp add: load_requested tile_requests_0 load_thrown no_tiles_def)

text \<open>
  Claim C7, amended. Every tile of the batch is requested before the results are awaited,
  whatever becomes of the requests; and if any requested tile fails to load, nothing is
  drawn, no texture is created or applied, the ground keeps the texture it had, and
  \<^verbatim>\<open>load\<close> swallows the failure: it ends without an error.
\<close>

theorem tile_failure_swallowed:
  assumes "t \<in> set (tile_requests cx cy r)" and "tiles t = None"
  shows "load tiles isCancelled mesh cx cy r ts g =
           \<lparr>requested = tile_requests cx cy r, ground_after = g, thrown = None\<rparr>"
  using assms by (rule load_failed)

theorem tile_failure_swallowed_witness:
  "(0, 0) \<in> set (tile_requests 0 0 0)
   \<and> no_tiles (0, 0) = None
   \<and> load no_tiles False True 0 0 0 256 bare_ground
       = \<lparr>requested = [(0, 0)], ground_after = bare_ground, thrown = None\<rparr>"
  using tile_failure_swallowed [of "(0, 0)" 0 0 0 no_tiles False True 256 bare_ground]
  by (simp add: tile_requests_0 no_tiles_def)

text \<open>
  Claim C8. For every \<open>tilesRadius \<ge> 0\<close>, one run of \<^verbatim>\<open>load\<close> requests exactly
  \<open>(2 * tilesRadius + 1)\<^sup>2\<close> tiles, pairwise different, which are the tiles of the square
  grid of that radius around the centre tile \<open>(cx, cy)\<close>; the effect calls \<^verbatim>\<open>load\<close> with
  the centre tile that \<^verbatim>\<open>lonLatToTile\<close> computes.
\<close>

theorem tile_grid_requests:
  assumes "0 \<le> tilesRadius"
  shows "int (length (requested (load tiles isCancelled mesh cx cy tilesRadius tileSize g)))
           = (2 * tilesRadius + 1)\<^sup>2
       \<and> distinct (requested (load tiles isCancelled mesh cx cy tilesRadius tileSize g))
       \<and> (\<forall>x y. (x, y) \<in> set (requested (load tiles isCancelled mesh cx cy tilesRadius tileSize g))
             \<longleftrightarrow> \<bar>x - cx\<bar> \<le> tilesRadius \<and> \<bar>y - cy\<bar> \<le> tilesRadius)
       \<and> requested (SatelliteGround_effect centerLat centerLon zoom tileSize tilesRadius True tiles
             isCancelled mesh g)
           = requested (load tiles isCancelled mesh (fst (lonLatToTile centerLon centerLat zoom))
               (snd (lonLatToTile centerLon centerLat zoom)) tilesRadius tileSize g)"
  using assms
  by (simp add: load_requested effect_requested length_tile_requests distinct_tile_requests
      set_tile_requests)

theorem tile_grid_requests_witness:
  "length (requested (load no_tiles False True 5 7 1 256 bare_ground)) = 9
   \<and> length (requested (load no_tiles False True 5 7 0 256 bare_ground)) = 1"
  using tile_grid_requests [of 1 no_tiles False True 5 7 256 bare_ground]
    tile_grid_requests [of 0 no_tiles False True 5 7 256 bare_ground]
  by simp

section \<open>The tile formula\<close>

lemma pow2_real: "(2::real) powr (real zoom) = 2 ^ zoom"
  by (simp add: powr_realpow)

lemma tile_formula: "lonLatToTile lon lat (real zoom) = web_mercator_tile lon lat zoom"
  unfolding lonLatToTile_def web_mercator_tile_def Let_def sec_def lat_rad_def pow2_real
    inverse_eq_divide
  by simp

lemma tile_origin: "lonLatToTile 0 0 1 = (1, 1)"
  unfolding lonLatToTile_def Let_def by simp

text \<open>
  Claim C9. For every longitude, latitude and zoom level, \<^verbatim>\<open>lonLatToTile\<close> computes
  the tile of the formula \<open>x = floor((lon+180)/360 * 2^zoom)\<close>,
  \<open>y = floor((1 - ln(tan(lat_rad) + sec(lat_rad))/pi)/2 * 2^zoom)\<close>; for longitude 0,
  latitude 0 and zoom 1 it yields the tile \<open>(1, 1)\<close>.
\<close>

theorem lonLatToTile_formula:
  "lonLatToTile lon lat (real zoom) = web_mercator_tile lon lat zoom
   \<and> lonLatToTile 0 0 1 = (1, 1)"
  using tile_formula tile_origin by blast

end
